theory Spec2Isabelle
  imports Complex_Main
begin

section \<open>Shared data: exceptions, the host, subprocesses\<close>

text \<open>
  Exceptions the modelled code raises itself or lets through. \<open>SubprocessRunError\<close>
  stands for whatever \<open>subprocess.run\<close> raises on its own account (a spawn failure, an
  expired \<open>timeout\<close>, an invalid combination of arguments) before a return code exists.
\<close>

datatype exn =
    CalledProcessError int string
  | SubprocessRunError string
  | Exception string
  | ValueError string
  | TypeError string
  | KeyError string
  | UnicodeDecodeError
  | SystemExit

text \<open>The \<open>CompletedProcess\<close> object \<open>subprocess.run\<close> hands back.\<close>

record completed_process =
  cp_args :: string
  returncode :: int
  cp_stdout :: "string option"

text \<open>
  What \<open>run_subprocess\<close> passes to \<open>subprocess.run\<close>. The keyword arguments it only
  forwards (stdin, input, stdout, stderr, cwd, timeout, encoding, errors, text, env,
  universal_newlines) are one opaque field; \<open>check\<close> is always False.
\<close>

record 'k run_request =
  rq_args :: string
  rq_shell :: bool
  rq_capture_output :: bool
  rq_check :: bool
  rq_forwarded :: 'k

text \<open>Calls on the device object, in the order they are made.\<close>

datatype device_call =
    AdbDevice "string option"
  | CheckDeviceConnection
  | RootDevice
  | GetAndroidSdkVersion

text \<open>
  The part of the host that the code reads and changes: which paths exist, which are
  regular files, the lines printed so far, and the calls made on the device so far.
\<close>

record world =
  os_path_exists :: "string \<Rightarrow> bool"
  os_path_isfile :: "string \<Rightarrow> bool"
  console :: "string list"
  device_log :: "device_call list"

text \<open>
  The library calls whose results come from the host: \<open>os.path.expanduser\<close> and
  \<open>subprocess.run\<close>, which either raises or returns a completed process and may change
  the world (a child process can create files).
\<close>

record 'k host =
  expanduser :: "string \<Rightarrow> string"
  subprocess_run :: "'k run_request \<Rightarrow> world \<Rightarrow> (exn + completed_process) \<times> world"

definition print :: "string \<Rightarrow> world \<Rightarrow> world" where
  "print s w = w\<lparr>console := console w @ [s]\<rparr>"

section \<open>utils.py\<close>

definition path_exists :: "'k host \<Rightarrow> world \<Rightarrow> string option \<Rightarrow> bool" where
  "path_exists h w path =
     (case path of None \<Rightarrow> False | Some p \<Rightarrow> os_path_exists w (expanduser h p))"

text \<open>\<open>CompletedProcess.check_returncode\<close>: raises when the return code is non-zero.\<close>

definition check_returncode :: "completed_process \<Rightarrow> exn + unit" where
  "check_returncode output =
     (if returncode output \<noteq> 0
      then Inl (CalledProcessError (returncode output) (cp_args output))
      else Inr ())"

text \<open>
  \<open>run_subprocess\<close>: the call of \<open>subprocess.run\<close> with \<open>check=False\<close>, the manual
  check of the return code against \<open>ignore_returncodes\<close>, and the result, which is the
  completed process under \<open>capture_output\<close> and None otherwise.
\<close>

definition run_subprocess ::
  "'k host \<Rightarrow> string \<Rightarrow> int list \<Rightarrow> bool \<Rightarrow> bool \<Rightarrow> 'k \<Rightarrow> world
     \<Rightarrow> (exn + completed_process option) \<times> world" where
  "run_subprocess h args ignore_returncodes capture_output shell kw w =
     (case subprocess_run h
             \<lparr>rq_args = args, rq_shell = shell, rq_capture_output = capture_output,
              rq_check = False, rq_forwarded = kw\<rparr> w of
        (Inl e, w') \<Rightarrow> (Inl e, w')
      | (Inr output, w') \<Rightarrow>
          (case (if returncode output \<noteq> 0 \<and> returncode output \<notin> set ignore_returncodes
                 then check_returncode output else Inr ()) of
             Inl e \<Rightarrow> (Inl e, w')
           | Inr _ \<Rightarrow> if capture_output then (Inr (Some output), w') else (Inr None, w')))"

text \<open>The two command lines of the conversion, as the format strings build them.\<close>

definition binary_cache_command :: "string \<Rightarrow> string \<Rightarrow> string \<Rightarrow> string" where
  "binary_cache_command expanded_scripts_path host_raw_trace_filename expanded_symbols =
     ''export PYTHONPATH=$PYTHONPATH:'' @ expanded_scripts_path @ '' && '' @
     expanded_scripts_path @ ''/binary_cache_builder.py -i '' @ host_raw_trace_filename @
     '' -lib '' @ expanded_symbols"

definition gecko_command :: "string \<Rightarrow> string \<Rightarrow> string \<Rightarrow> string" where
  "gecko_command expanded_scripts_path host_raw_trace_filename host_gecko_trace_filename =
     ''export PYTHONPATH=$PYTHONPATH:'' @ expanded_scripts_path @ '' && '' @
     expanded_scripts_path @ ''/gecko_profile_generator.py -i '' @ host_raw_trace_filename @
     '' > '' @ host_gecko_trace_filename"

text \<open>
  \<open>convert_simpleperf_to_gecko\<close>: both stages go through \<open>run_subprocess\<close> with the
  default (empty) \<open>ignore_returncodes\<close>, so an exception of either stage leaves the
  function at once; the existence check of the output file comes last.
\<close>

definition convert_simpleperf_to_gecko ::
  "'k host \<Rightarrow> 'k \<Rightarrow> string \<Rightarrow> string \<Rightarrow> string \<Rightarrow> string \<Rightarrow> world \<Rightarrow> (exn + unit) \<times> world" where
  "convert_simpleperf_to_gecko h kw scripts_path host_raw_trace_filename
       host_gecko_trace_filename symbols w0 =
     (let expanded_symbols = expanduser h symbols;
          expanded_scripts_path = expanduser h scripts_path;
          w1 = print (''Building binary cache, please wait. If no samples were recorded,'' @
                      '' the trace will be empty.'') w0
      in case run_subprocess h
                (binary_cache_command expanded_scripts_path host_raw_trace_filename
                   expanded_symbols) [] False True kw w1 of
           (Inl e, w2) \<Rightarrow> (Inl e, w2)
         | (Inr _, w2) \<Rightarrow>
             (case run_subprocess h
                     (gecko_command expanded_scripts_path host_raw_trace_filename
                        host_gecko_trace_filename) [] False True kw w2 of
                (Inl e, w3) \<Rightarrow> (Inl e, w3)
              | (Inr _, w3) \<Rightarrow>
                  if \<not> path_exists h w3 (Some host_gecko_trace_filename)
                  then (Inl (Exception ''Gecko file was not created.''), w3)
                  else (Inr (), w3)))"

subsection \<open>wait_for_output\<close>

text \<open>\<open>pattern in line\<close> on Python strings: \<open>pattern\<close> occurs in \<open>line\<close> as a substring.\<close>

fun starts_with :: "string \<Rightarrow> string \<Rightarrow> bool" where
  "starts_with [] s = True"
| "starts_with (p # ps) [] = False"
| "starts_with (p # ps) (c # cs) = (p = c \<and> starts_with ps cs)"

fun py_in :: "string \<Rightarrow> string \<Rightarrow> bool" where
  "py_in pattern [] = (pattern = [])"
| "py_in pattern (c # cs) = (starts_with pattern (c # cs) \<or> py_in pattern cs)"

text \<open>
  What one pass through \<open>process.stdout.readline()\<close> and \<open>line.decode()\<close> yields: the
  decoded text of a line (the empty string at end of file), bytes that are not valid
  UTF-8, on which \<open>decode\<close> raises, or nothing at all, when the child writes no further
  line and keeps its end of the pipe open, so that \<open>readline\<close> never returns.
\<close>

datatype read_result = Line string | Undecodable | Blocks

text \<open>
  The loop of \<open>wait_for_output\<close>. \<open>clock k\<close> is the \<open>k\<close>-th reading of \<open>time.time()\<close>
  (reading 0 is \<open>start_time\<close>, reading \<open>Suc i\<close> is the one of the \<open>i\<close>-th loop test) and
  \<open>reads i\<close> is what the \<open>i\<close>-th read yields. The value None is a call that never
  returns. The assignment \<open>process.stderr = None\<close> on the matching branch changes
  nothing the function reads or returns and is left out.
\<close>

partial_function (option) wait_loop ::
  "string \<Rightarrow> (nat \<Rightarrow> real) \<Rightarrow> (nat \<Rightarrow> read_result) \<Rightarrow> real \<Rightarrow> real \<Rightarrow> nat
     \<Rightarrow> (exn + bool) option" where
  "wait_loop pattern clock reads start_time timeout i =
     (if clock (Suc i) - start_time < timeout then
        (case reads i of
           Blocks \<Rightarrow> None
         | Undecodable \<Rightarrow> Some (Inl UnicodeDecodeError)
         | Line line \<Rightarrow>
             if py_in pattern line then Some (Inr False)
             else wait_loop pattern clock reads start_time timeout (Suc i))
      else Some (Inr True))"

declare wait_loop.simps [code]

definition wait_for_output ::
  "string \<Rightarrow> (nat \<Rightarrow> real) \<Rightarrow> (nat \<Rightarrow> read_result) \<Rightarrow> real \<Rightarrow> (exn + bool) option" where
  "wait_for_output pattern clock reads timeout =
     wait_loop pattern clock reads (clock 0) timeout 0"

text \<open>The \<open>i\<close>-th loop test finds budget left.\<close>

definition in_budget :: "(nat \<Rightarrow> real) \<Rightarrow> real \<Rightarrow> nat \<Rightarrow> bool" where
  "in_budget clock timeout i = (clock (Suc i) - clock 0 < timeout)"

text \<open>A read returned a line that decodes; a read returned a line that contains the pattern.\<close>

definition is_line :: "read_result \<Rightarrow> bool" where
  "is_line r = (case r of Line l \<Rightarrow> True | _ \<Rightarrow> False)"

definition matches :: "string \<Rightarrow> read_result \<Rightarrow> bool" where
  "matches pattern r = (case r of Line l \<Rightarrow> py_in pattern l | _ \<Rightarrow> False)"

subsection \<open>wait_for_process_or_ctrl_c\<close>

datatype signal = SIGINT | SIGTERM

text \<open>What the function and its handler do, in the order they do it.\<close>

datatype effect =
    SignalSignal signal
  | ProcessWait
  | ProcessKill
  | SysExit
  | Print string

text \<open>What can happen while \<open>process.wait()\<close> is in flight.\<close>

datatype event = Deliver signal | ProcessExits

datatype status = Waiting | Returned | Exited

record run_state =
  status :: status
  effects :: "effect list"

text \<open>
  \<open>signal_handler\<close>: prints, kills the child, calls \<open>sys.exit()\<close>. The SystemExit it
  raises unwinds out of \<open>process.wait()\<close>; nothing in the function catches it.
\<close>

definition signal_handler :: "run_state \<Rightarrow> run_state" where
  "signal_handler s =
     s\<lparr>effects := effects s @ [Print ''Exiting...'', ProcessKill, SysExit], status := Exited\<rparr>"

text \<open>
  One event. While the wait is in flight a delivered signal runs the handler (both
  signals have it installed) and the exit of the child lets \<open>wait\<close> return, after which
  the last line is printed. Once the function has returned or the program has exited,
  the function does nothing more.
\<close>

definition step :: "run_state \<Rightarrow> event \<Rightarrow> run_state" where
  "step s ev =
     (case status s of
        Waiting \<Rightarrow>
          (case ev of
             Deliver sig \<Rightarrow> signal_handler s
           | ProcessExits \<Rightarrow>
               s\<lparr>effects := effects s @ [Print ''Process was killed.''], status := Returned\<rparr>)
      | Returned \<Rightarrow> s
      | Exited \<Rightarrow> s)"

definition wait_for_process_or_ctrl_c :: "event list \<Rightarrow> run_state" where
  "wait_for_process_or_ctrl_c events =
     foldl step
       \<lparr>status = Waiting, effects = [SignalSignal SIGINT, SignalSignal SIGTERM, ProcessWait]\<rparr>
       events"

section \<open>Python string operations used by config.py\<close>

definition tab :: string where
  "tab = [CHR 0x09]"

text \<open>\<open>sep.join(xs)\<close>.\<close>

fun py_join :: "string \<Rightarrow> string list \<Rightarrow> string" where
  "py_join sep [] = []"
| "py_join sep [x] = x"
| "py_join sep (x # y # ys) = x @ sep @ py_join sep (y # ys)"

text \<open>\<open>s.split("\n")\<close>: the pieces between line feeds, at least one piece.\<close>

fun split_lines :: "string \<Rightarrow> string list" where
  "split_lines [] = [[]]"
| "split_lines (c # cs) =
     (if c = CHR 0x0A then [] # split_lines cs
      else (case split_lines cs of [] \<Rightarrow> [[c]] | l # ls \<Rightarrow> (c # l) # ls))"

text \<open>\<open>s.strip()\<close>, on the characters below 128 that \<open>str.isspace\<close> accepts.\<close>

definition is_space :: "char \<Rightarrow> bool" where
  "is_space c = (c \<in> set [CHR 0x09, CHR 0x0A, CHR 0x0B, CHR 0x0C, CHR 0x0D,
                           CHR 0x1C, CHR 0x1D, CHR 0x1E, CHR 0x1F, CHR 0x20])"

definition py_strip :: "string \<Rightarrow> string" where
  "py_strip s = rev (dropWhile is_space (rev (dropWhile is_space s)))"

text \<open>\<open>xs[2:-2]\<close>: empty when the list has fewer than five elements' worth to keep.\<close>

definition slice_2_minus_2 :: "'a list \<Rightarrow> 'a list" where
  "slice_2_minus_2 xs = drop 2 (take (length xs - 2) xs)"

section \<open>config.py\<close>

text \<open>
  \<open>ValidationError\<close> of \<open>base.py\<close>: a message and an optional suggestion, the two
  attributes \<open>print_error\<close> reads.
\<close>

datatype validation_error = ValidationError (message: string) (suggestion: "string option")

text \<open>
  The parsed arguments (an \<open>argparse.Namespace\<close>), with the attributes the modelled
  functions read or set. None stands for an attribute that is None or not yet set.
\<close>

record namespace =
  subcommands :: string
  serial :: "string list option"
  config_subcommand :: "string option"
  config_name :: string
  file_path :: "string option"
  runs :: "int option"
  profiler :: "string option"
  dur_ms :: "int option"
  excluded_ftrace_events :: "string list option"
  included_ftrace_events :: "string list option"
  trigger_names :: "string list option"
  trigger_stop_delay_ms :: "int list option"
  trigger_timeout_ms :: "int option"
  trigger_mode :: "string option"

text \<open>
  \<open>verify_config_args\<close>. The pair \<open>(args, error)\<close> it returns is a sum: \<open>Inl\<close> the
  error, \<open>Inr\<close> the arguments. \<open>verify_trigger_args\<close> is defined in \<open>profiler.py\<close>,
  which is not among the sources, and is a parameter here.
\<close>

definition verify_config_args ::
  "(namespace \<Rightarrow> validation_error + namespace) \<Rightarrow> world \<Rightarrow> namespace
     \<Rightarrow> validation_error + namespace" where
  "verify_config_args verify_trigger_args w args =
     (if config_subcommand args = None then
        Inl (ValidationError
               (''Command is invalid because torq config cannot be called'' @
                '' without a subcommand.'')
               (Some (''Use one of the following subcommands:\<newline>'' @
                      tab @ '' torq config list\<newline>'' @
                      tab @ '' torq config show\<newline>'' @
                      tab @ '' torq config pull\<newline>'')))
      else
        (case (if config_subcommand args = Some ''pull'' then
                 (case file_path args of
                    None \<Rightarrow>
                      Inr (args\<lparr>file_path := Some (''./'' @ config_name args @ ''.pbtxt'')\<rparr>)
                  | Some path \<Rightarrow>
                      if \<not> os_path_isfile w path then
                        Inl (ValidationError
                               (''Command is invalid because '' @ path @
                                '' is not a valid filepath.'')
                               (Some (''A default filepath can be used if you do not specify'' @
                                      '' a file-path:\<newline>'' @
                                      tab @ '' torq pull default to copy to'' @
                                      '' ./default.pbtxt\<newline>'' @
                                      tab @ '' torq pull lightweight to copy to'' @
                                      '' ./lightweight.pbtxt\<newline>'' @
                                      tab @ '' torq pull memory to copy to ./memory.pbtxt'')))
                      else Inr args)
               else Inr args) of
           Inl error \<Rightarrow> Inl error
         | Inr args1 \<Rightarrow>
             if config_subcommand args1 \<noteq> Some ''list'' then
               verify_trigger_args (args1\<lparr>runs := Some 1, profiler := Some ''perfetto''\<rparr>)
             else Inr args1))"

text \<open>\<open>ConfigCommand\<close>: the type of the command and the fields of its constructor.\<close>

record config_command =
  cmd_type :: string
  cmd_config_name :: "string option"
  cmd_file_path :: "string option"
  cmd_dur_ms :: "int option"
  cmd_excluded_ftrace_events :: "string list option"
  cmd_included_ftrace_events :: "string list option"
  cmd_trigger_names :: "string list option"
  cmd_trigger_stop_delay_ms :: "int list option"
  cmd_trigger_timeout_ms :: "int option"
  cmd_trigger_mode :: "string option"

text \<open>
  \<open>create_config_command\<close>. Concatenating \<open>"config "\<close> with a subcommand that is None
  raises TypeError.
\<close>

definition create_config_command :: "namespace \<Rightarrow> exn + config_command" where
  "create_config_command args =
     (case config_subcommand args of
        None \<Rightarrow> Inl (TypeError ''can only concatenate str (not NoneType) to str'')
      | Some sub \<Rightarrow>
          (let type = ''config '' @ sub;
               none = \<lparr>cmd_type = type, cmd_config_name = None, cmd_file_path = None,
                       cmd_dur_ms = None, cmd_excluded_ftrace_events = None,
                       cmd_included_ftrace_events = None, cmd_trigger_names = None,
                       cmd_trigger_stop_delay_ms = None, cmd_trigger_timeout_ms = None,
                       cmd_trigger_mode = None\<rparr>
           in if sub = ''pull'' \<or> sub = ''show'' then
                Inr (none\<lparr>cmd_config_name := Some (config_name args),
                          cmd_dur_ms := dur_ms args,
                          cmd_excluded_ftrace_events := excluded_ftrace_events args,
                          cmd_included_ftrace_events := included_ftrace_events args,
                          cmd_trigger_names := trigger_names args,
                          cmd_trigger_stop_delay_ms := trigger_stop_delay_ms args,
                          cmd_trigger_timeout_ms := trigger_timeout_ms args,
                          cmd_trigger_mode := trigger_mode args,
                          cmd_file_path := (if sub = ''pull'' then file_path args else None)\<rparr>)
              else Inr none))"

text \<open>
  What the device object answers: the result of \<open>check_device_connection\<close> (None when
  the device is reachable) and the SDK version it reports.
\<close>

record device =
  connection_error :: "validation_error option"
  android_sdk_version :: int

definition called :: "device_call \<Rightarrow> world \<Rightarrow> world" where
  "called c w = w\<lparr>device_log := device_log w @ [c]\<rparr>"

text \<open>
  The names \<open>config.py\<close> takes from modules that are not among the sources, as
  parameters: the constant \<open>ANDROID_SDK_VERSION_T\<close> of \<open>base.py\<close> and the table
  \<open>PREDEFINED_PERFETTO_CONFIGS\<close> of \<open>config_builder.py\<close>, a dictionary from config names
  to builders, in insertion order, each builder returning the pair \<open>(config, error)\<close>.
\<close>

type_synonym builder = "config_command \<Rightarrow> int \<Rightarrow> string \<times> validation_error option"

record imported =
  ANDROID_SDK_VERSION_T :: int
  PREDEFINED_PERFETTO_CONFIGS :: "(string \<times> builder) list"

text \<open>The shell command of pull and the text that show prints, for a built config.\<close>

definition cat_command :: "string option \<Rightarrow> string \<Rightarrow> string" where
  "cat_command path config =
     ''cat > '' @ (case path of None \<Rightarrow> ''None'' | Some p \<Rightarrow> p) @ '' '' @ config"

definition shown_text :: "string \<Rightarrow> string" where
  "shown_text config = py_join ''\<newline>'' (slice_2_minus_2 (split_lines (py_strip config)))"

text \<open>
  \<open>execute_show_or_pull_command\<close>. The SDK version starts as \<open>ANDROID_SDK_VERSION_T\<close>
  and is replaced by the device's only when the connection check returns no error; the
  error of the connection check is then overwritten by the builder's.
\<close>

definition execute_show_or_pull_command ::
  "'k host \<Rightarrow> 'k \<Rightarrow> imported \<Rightarrow> config_command \<Rightarrow> device \<Rightarrow> world
     \<Rightarrow> (exn + validation_error option) \<times> world" where
  "execute_show_or_pull_command h kw imp command dev w0 =
     (let w1 = called CheckDeviceConnection w0;
          error = connection_error dev;
          (sdk, w2) = (if error = None
                       then (android_sdk_version dev,
                             called GetAndroidSdkVersion (called RootDevice w1))
                       else (ANDROID_SDK_VERSION_T imp, w1))
      in case cmd_config_name command of
           None \<Rightarrow> (Inl (KeyError ''None''), w2)
         | Some name \<Rightarrow>
             (case map_of (PREDEFINED_PERFETTO_CONFIGS imp) name of
                None \<Rightarrow> (Inl (KeyError name), w2)
              | Some build \<Rightarrow>
                  (case build command sdk of
                     (config, Some error) \<Rightarrow> (Inr (Some error), w2)
                   | (config, None) \<Rightarrow>
                       if cmd_type command = ''config pull'' then
                         (case run_subprocess h (cat_command (cmd_file_path command) config)
                                 [] False True kw w2 of
                            (Inl e, w3) \<Rightarrow> (Inl e, w3)
                          | (Inr _, w3) \<Rightarrow> (Inr None, w3))
                       else (Inr None, print (shown_text config) w2))))"

text \<open>\<open>execute_config_command\<close>: the match on the type of the command.\<close>

definition execute_config_command ::
  "'k host \<Rightarrow> 'k \<Rightarrow> imported \<Rightarrow> namespace \<Rightarrow> device \<Rightarrow> world
     \<Rightarrow> (exn + validation_error option) \<times> world" where
  "execute_config_command h kw imp args dev w =
     (case create_config_command args of
        Inl e \<Rightarrow> (Inl e, w)
      | Inr command \<Rightarrow>
          if cmd_type command = ''config list'' then
            (Inr None,
             print (py_join ''\<newline>'' (map fst (PREDEFINED_PERFETTO_CONFIGS imp))) w)
          else if cmd_type command = ''config show'' \<or> cmd_type command = ''config pull'' then
            execute_show_or_pull_command h kw imp command dev w
          else (Inl (ValueError ''Invalid config subcommand was used.''), w))"

section \<open>torq.py\<close>

text \<open>
  Code of the repository that \<open>torq.py\<close> calls and that is not among the sources, as
  parameters: the argument checks of \<open>profiler.py\<close> and \<open>open.py\<close>, and
  \<open>get_command(args)\<close> followed by \<open>command.execute(device)\<close>.
\<close>

record collaborators =
  verify_trigger_args_of :: "namespace \<Rightarrow> validation_error + namespace"
  verify_profiler_args_of :: "namespace \<Rightarrow> validation_error + namespace"
  verify_open_args_of :: "namespace \<Rightarrow> validation_error + namespace"
  execute_command_of :: "namespace \<Rightarrow> world \<Rightarrow> (exn + validation_error option) \<times> world"

definition verify_args ::
  "collaborators \<Rightarrow> world \<Rightarrow> namespace \<Rightarrow> exn + (validation_error + namespace)" where
  "verify_args col w args =
     (if subcommands args = ''profiler'' then Inr (verify_profiler_args_of col args)
      else if subcommands args = ''config''
        then Inr (verify_config_args (verify_trigger_args_of col) w args)
      else if subcommands args = ''open'' then Inr (verify_open_args_of col args)
      else if subcommands args = ''vm'' then Inr (Inr args)
      else Inl (ValueError ''Invalid command type used''))"

definition print_error :: "validation_error \<Rightarrow> world \<Rightarrow> world" where
  "print_error error w =
     (let w1 = print (message error) w
      in case suggestion error of
           None \<Rightarrow> w1
         | Some s \<Rightarrow> print (''Suggestion:\<newline>'' @ tab @ '' '' @ s) w1)"

text \<open>
  \<open>run\<close>, from the parsed arguments on. The device object is created only after the
  arguments have passed \<open>verify_args\<close>; a validation error is printed and ends the run.
\<close>

definition run :: "collaborators \<Rightarrow> namespace \<Rightarrow> world \<Rightarrow> (exn + unit) \<times> world" where
  "run col args0 w =
     (case verify_args col w args0 of
        Inl e \<Rightarrow> (Inl e, w)
      | Inr (Inl error) \<Rightarrow> (Inr (), print_error error w)
      | Inr (Inr args) \<Rightarrow>
          (let serial_no = (case serial args of Some (x # xs) \<Rightarrow> Some x | _ \<Rightarrow> None);
               w1 = called (AdbDevice serial_no) w
           in case execute_command_of col args w1 of
                (Inl e, w2) \<Rightarrow> (Inl e, w2)
              | (Inr (Some error), w2) \<Rightarrow> (Inr (), print_error error w2)
              | (Inr None, w2) \<Rightarrow> (Inr (), w2)))"

section \<open>profiler.py, from the specification\<close>

subsection \<open>Decimal numerals\<close>

text \<open>The decimal numeral of a number, as \<open>str(n)\<close> and \<open>"%d" % n\<close> write it.\<close>

definition digit_char :: "nat \<Rightarrow> char" where
  "digit_char d = ''0123456789'' ! d"

fun decimal :: "nat \<Rightarrow> string" where
  "decimal n =
     (if n < 10 then [digit_char n]
      else decimal (n div 10) @ [digit_char (n mod 10)])"

definition percent_d :: "int \<Rightarrow> string" where
  "percent_d i = (if 0 \<le> i then decimal (nat i) else CHR ''-'' # decimal (nat (- i)))"

text \<open>\<open>"%d" % (ms / 1000)\<close>: the quotient, truncated towards zero.\<close>

definition whole_seconds :: "int \<Rightarrow> int" where
  "whole_seconds ms = (if 0 \<le> ms then ms div 1000 else - ((- ms) div 1000))"

subsection \<open>Validation of the trigger arguments\<close>

text \<open>
  The lower bounds \<open>MIN_DURATION_MS\<close> and \<open>MIN_STOP_DELAY_MS\<close> of \<open>profiler.py\<close>, whose
  values are not among the sources, as parameters.
\<close>

record trigger_limits =
  MIN_DURATION_MS :: int
  MIN_STOP_DELAY_MS :: int

text \<open>
  Modelled from the spec: \<open>verify_trigger_args\<close> of \<open>profiler.py\<close> is not among the
  sources. Section 3 of the specification gives a TriggerSpec a list of trigger names
  and one stop delay per trigger (a single value is broadcast, otherwise the counts
  must match exactly), lets it be present only when no explicit duration is given, and
  has it force a run count of 1; section 4.2 has validation reject a stop-delay count
  that is neither 1 nor the number of trigger names. The further rejections (trigger
  options without trigger names, a profiler other than perfetto, values below the lower
  bounds) and all messages are those the tests of the repository expect. The order of
  the checks is fixed neither by the specification nor by the tests, each of which breaks
  one rule only; the default values that the function fills in are not fixed either and
  are left out.
\<close>

definition verify_trigger_args :: "trigger_limits \<Rightarrow> namespace \<Rightarrow> validation_error + namespace" where
  "verify_trigger_args bounds args =
     (case trigger_names args of
        None \<Rightarrow>
          if trigger_timeout_ms args \<noteq> None then
            Inl (ValidationError
                   (''Command is invalid because --trigger-timeout-ms cannot be set'' @
                    '' without --trigger-names.'')
                   (Some ''Set --trigger-names or remove --trigger-timeout-ms.''))
          else if trigger_stop_delay_ms args \<noteq> None then
            Inl (ValidationError
                   (''Command is invalid because --trigger-stop-delay-ms cannot be set'' @
                    '' without --trigger-names.'')
                   (Some ''Set --trigger-names or remove --trigger-stop-delay-ms.''))
          else if trigger_mode args \<noteq> None then
            Inl (ValidationError
                   (''Command is invalid because --trigger-mode cannot be set'' @
                    '' without --trigger-names.'')
                   (Some ''Set --trigger-names or remove --trigger-mode.''))
          else Inr args
      | Some names \<Rightarrow>
          if profiler args \<noteq> Some ''perfetto'' then
            Inl (ValidationError
                   (''Command is invalid because --trigger-names cannot be passed'' @
                    '' if --profiler is not set to perfetto.'')
                   (Some ''Set -p perfetto to use trigger-names.''))
          else if dur_ms args \<noteq> None then
            Inl (ValidationError
                   (''Command is invalid because --dur-ms cannot be passed if a perfetto'' @
                    '' trigger is being set.'')
                   (Some (''Run command with a --trigger-timeout-ms option instead of'' @
                          '' --dur-ms.'')))
          else if (case runs args of None \<Rightarrow> False | Some r \<Rightarrow> 1 < r) then
            Inl (ValidationError
                   (''Command is invalid because the number of runs cannot be more than 1'' @
                    '' when including trigger configs.'')
                   (Some ''Run command without the -r option.''))
          else if (case trigger_timeout_ms args of
                     None \<Rightarrow> False | Some t \<Rightarrow> t < MIN_DURATION_MS bounds) then
            Inl (ValidationError
                   (''Command is invalid because --trigger-timeout-ms cannot be set to a'' @
                    '' value smaller than '' @ percent_d (MIN_DURATION_MS bounds) @ ''.'')
                   (Some (''Set --trigger-timeout-ms '' @ percent_d (MIN_DURATION_MS bounds) @
                          '' to timeout after '' @
                          percent_d (whole_seconds (MIN_DURATION_MS bounds)) @ '' seconds.'')))
          else
            (case trigger_stop_delay_ms args of
               None \<Rightarrow> Inr args
             | Some delays \<Rightarrow>
                 if length delays \<noteq> 1 \<and> length delays \<noteq> length names then
                   Inl (ValidationError
                          (''Command is invalid because number of trigger names passed is'' @
                           '' not equal to number of stop-delay-ms values passed.'')
                          (Some (''Pass only one stop-delay-ms value to use for all triggers,'' @
                                 '' pass none to use the default value for all triggers, or'' @
                                 '' pass an equal number of trigger names and stop-delay-ms'' @
                                 '' values.'')))
                 else if list_ex (\<lambda>d. d < MIN_STOP_DELAY_MS bounds) delays then
                   Inl (ValidationError
                          (''Command is invalid because --trigger-stop-delay-ms cannot be'' @
                           '' set to a value smaller than '' @
                           percent_d (MIN_STOP_DELAY_MS bounds) @ ''.'')
                          (Some (''Set --trigger-stop-delay-ms '' @
                                 percent_d (MIN_STOP_DELAY_MS bounds) @
                                 '' to keep tracing after a trigger for '' @
                                 percent_d (whole_seconds (MIN_STOP_DELAY_MS bounds)) @
                                 '' seconds.'')))
                 else Inr args))"

text \<open>
  Modelled from the spec: the stop delay that goes with each trigger name is computed in
  \<open>config_builder.py\<close>, which is not among the sources. Section 3: a single value is
  broadcast to every trigger name, otherwise the values go one-to-one with the names.
\<close>

definition trigger_stop_delays :: "string list \<Rightarrow> int list \<Rightarrow> (string \<times> int) list" where
  "trigger_stop_delays names delays =
     (case delays of
        [d] \<Rightarrow> map (\<lambda>name. (name, d)) names
      | _ \<Rightarrow> zip names delays)"

subsection \<open>Names of clone snapshots\<close>

text \<open>
  Modelled from the spec: the code that names the snapshots of the clone mode is in
  \<open>profiler.py\<close>, which is not among the sources. Sections 3 and 6: the \<open>N\<close>-th clone
  snapshot within a session is named \<open><base>.<N>\<close>, \<open>N\<close> starting at 0; the suffix
  counter belongs to the session and each firing increments it.
\<close>

definition clone_artifact_name :: "string \<Rightarrow> nat \<Rightarrow> string" where
  "clone_artifact_name base n = base @ ''.'' @ decimal n"

record session =
  clones_taken :: nat
  artifacts :: "string list"

definition new_session :: session where
  "new_session = \<lparr>clones_taken = 0, artifacts = []\<rparr>"

definition fire_clone :: "string \<Rightarrow> session \<Rightarrow> session" where
  "fire_clone base s =
     s\<lparr>artifacts := artifacts s @ [clone_artifact_name base (clones_taken s)],
       clones_taken := Suc (clones_taken s)\<rparr>"

fun fire_clones :: "string \<Rightarrow> nat \<Rightarrow> session \<Rightarrow> session" where
  "fire_clones base 0 s = s"
| "fire_clones base (Suc k) s = fire_clones base k (fire_clone base s)"

subsection \<open>The loop over the runs\<close>

text \<open>The outcome of one run, as section 3 of the specification lists them.\<close>

datatype outcome = Success | TimedOut | DeviceError | ConversionError


record command =
  cmd_runs :: nat
  cmd_between_dur_ms :: int





section \<open>Concrete hosts used to run the model\<close>

text \<open>A host where every subprocess completes with the same return code.\<close>

definition fixed_code_host :: "int \<Rightarrow> unit host" where
  "fixed_code_host rc =
     \<lparr>expanduser = (\<lambda>p. p),
      subprocess_run = (\<lambda>rq w.
         (Inr \<lparr>cp_args = rq_args rq, returncode = rc, cp_stdout = None\<rparr>, w))\<rparr>"

text \<open>
  A host where the command line \<open>first_command\<close> completes with \<open>rc1\<close> and every other
  one with \<open>rc2\<close>.
\<close>

definition two_stage_host :: "string \<Rightarrow> int \<Rightarrow> int \<Rightarrow> unit host" where
  "two_stage_host first_command rc1 rc2 =
     \<lparr>expanduser = (\<lambda>p. p),
      subprocess_run = (\<lambda>rq w.
         (Inr \<lparr>cp_args = rq_args rq,
               returncode = (if rq_args rq = first_command then rc1 else rc2),
               cp_stdout = None\<rparr>, w))\<rparr>"

text \<open>A host where \<open>subprocess.run\<close> raises: the child outlives the timeout given.\<close>

definition raising_host :: "unit host" where
  "raising_host =
     \<lparr>expanduser = (\<lambda>p. p),
      subprocess_run = (\<lambda>rq w. (Inl (SubprocessRunError ''TimeoutExpired''), w))\<rparr>"

text \<open>A world where every path exists and is a regular file; nothing printed yet.\<close>

definition all_present :: world where
  "all_present =
     \<lparr>os_path_exists = (\<lambda>p. True), os_path_isfile = (\<lambda>p. True), console = [],
      device_log = []\<rparr>"

text \<open>A clock that advances by one second between any two readings.\<close>

definition ticking_clock :: "nat \<Rightarrow> real" where
  "ticking_clock k = real k"

text \<open>Output streams of a child process.\<close>

definition ready_at_third :: "nat \<Rightarrow> read_result" where
  "ready_at_third k = (if k = 2 then Line ''device ready now'' else Line ''boot'')"

definition never_ready :: "nat \<Rightarrow> read_result" where
  "never_ready k = Line ''boot''"

definition silent_process :: "nat \<Rightarrow> read_result" where
  "silent_process k = Blocks"

definition garbled_process :: "nat \<Rightarrow> read_result" where
  "garbled_process k = Undecodable"

text \<open>A world where no path exists.\<close>

definition nothing_present :: world where
  "nothing_present =
     \<lparr>os_path_exists = (\<lambda>p. False), os_path_isfile = (\<lambda>p. False), console = [],
      device_log = []\<rparr>"

text \<open>
  A builder whose config depends on the SDK version it is given, and a table with the
  three config names the parser accepts.
\<close>

definition sample_builder :: builder where
  "sample_builder command sdk =
     (if sdk < 33
      then (''<<EOF\<newline>\<newline>buffers: { size_kb: 4096 }\<newline>\<newline>EOF'', None)
      else (''<<EOF\<newline>\<newline>buffers: { size_kb: 4096 }\<newline>duration_ms: 10000\<newline>\<newline>EOF'',
            None))"

definition sample_imported :: imported where
  "sample_imported =
     \<lparr>ANDROID_SDK_VERSION_T = 33,
      PREDEFINED_PERFETTO_CONFIGS =
        [(''default'', sample_builder), (''lightweight'', sample_builder),
         (''memory'', sample_builder)]\<rparr>"

text \<open>A builder that returns an error, and a table that has it.\<close>

definition rejecting_builder :: builder where
  "rejecting_builder command sdk =
     ([], Some (ValidationError ''Cannot build the config for these events.'' None))"

definition rejecting_imported :: imported where
  "rejecting_imported =
     \<lparr>ANDROID_SDK_VERSION_T = 33,
      PREDEFINED_PERFETTO_CONFIGS = [(''default'', rejecting_builder)]\<rparr>"

text \<open>The command of \<open>config show default\<close> or \<open>config pull default [path]\<close>.\<close>

definition sample_command :: "string \<Rightarrow> string option \<Rightarrow> config_command" where
  "sample_command type path =
     \<lparr>cmd_type = type, cmd_config_name = Some ''default'', cmd_file_path = path,
      cmd_dur_ms = None, cmd_excluded_ftrace_events = None,
      cmd_included_ftrace_events = None, cmd_trigger_names = None,
      cmd_trigger_stop_delay_ms = None, cmd_trigger_timeout_ms = None,
      cmd_trigger_mode = None\<rparr>"

text \<open>The arguments of \<open>torq config <sub> <name> [path]\<close> without further options.\<close>

definition config_args :: "string \<Rightarrow> string \<Rightarrow> string option \<Rightarrow> namespace" where
  "config_args sub name path =
     \<lparr>subcommands = ''config'', serial = None, config_subcommand = Some sub,
      config_name = name, file_path = path, runs = None, profiler = None, dur_ms = None,
      excluded_ftrace_events = None, included_ftrace_events = None, trigger_names = None,
      trigger_stop_delay_ms = None, trigger_timeout_ms = None, trigger_mode = None\<rparr>"

text \<open>The same with trigger names and stop delays.\<close>

definition trigger_args :: "string \<Rightarrow> string list \<Rightarrow> int list \<Rightarrow> namespace" where
  "trigger_args sub names delays =
     (config_args sub ''default'' None)
       \<lparr>profiler := Some ''perfetto'', trigger_names := Some names,
        trigger_stop_delay_ms := Some delays\<rparr>"

text \<open>A device that is not connected (and would report SDK 30 if it were asked).\<close>

definition unreachable_device :: device where
  "unreachable_device =
     \<lparr>connection_error =
        Some (ValidationError ''There are currently no devices connected.'' None),
      android_sdk_version = 30\<rparr>"

text \<open>Lower bounds of one second for the timeout and for the stop delays.\<close>

definition sample_limits :: trigger_limits where
  "sample_limits = \<lparr>MIN_DURATION_MS = 1000, MIN_STOP_DELAY_MS = 1000\<rparr>"

text \<open>
  Collaborators with the trigger check of the specification; executing a command
  checks the device connection.
\<close>

definition spec_collaborators :: collaborators where
  "spec_collaborators =
     \<lparr>verify_trigger_args_of = verify_trigger_args sample_limits,
      verify_profiler_args_of = verify_trigger_args sample_limits,
      verify_open_args_of = (\<lambda>args. Inr args),
      execute_command_of = (\<lambda>args w. (Inr None, called CheckDeviceConnection w))\<rparr>"



section \<open>Properties of utils.py\<close>

subsection \<open>run_subprocess\<close>

text \<open>
  Claim C9, as stated, fails: when \<open>subprocess.run\<close> itself raises (here because the
  child outlives the timeout), \<open>run_subprocess\<close> raises too, and no return code exists
  that could be non-zero.
\<close>

theorem run_subprocess_raises_without_return_code:
  "fst (subprocess_run raising_host
          \<lparr>rq_args = ''sleep 10'', rq_shell = False, rq_capture_output = False,
           rq_check = False, rq_forwarded = ()\<rparr> all_present)
     = Inl (SubprocessRunError ''TimeoutExpired'')
   \<and> fst (run_subprocess raising_host ''sleep 10'' [] False False () all_present)
       = Inl (SubprocessRunError ''TimeoutExpired'')"
  by (simp add: run_subprocess_def raising_host_def)

text \<open>
  Claim C9, amended. \<open>run_subprocess\<close> raises exactly when \<open>subprocess.run\<close> itself
  raises, or hands back a completed process whose return code is non-zero and not among
  \<open>ignore_returncodes\<close>. It returns the completed process exactly when there is one,
  its return code is zero or ignored, and \<open>capture_output\<close> is true; it returns None
  exactly when there is one, its return code is zero or ignored, and \<open>capture_output\<close>
  is false.
\<close>

theorem run_subprocess_raises_iff:
  "((\<exists>e. fst (run_subprocess h args ign capture_output shell kw w) = Inl e)
      = ((\<exists>e. fst (subprocess_run h
                      \<lparr>rq_args = args, rq_shell = shell, rq_capture_output = capture_output,
                       rq_check = False, rq_forwarded = kw\<rparr> w) = Inl e)
         \<or> (\<exists>output. fst (subprocess_run h
                      \<lparr>rq_args = args, rq_shell = shell, rq_capture_output = capture_output,
                       rq_check = False, rq_forwarded = kw\<rparr> w) = Inr output
               \<and> returncode output \<noteq> 0 \<and> returncode output \<notin> set ign)))
   \<and> ((fst (run_subprocess h args ign capture_output shell kw w) = Inr (Some output))
        = (fst (subprocess_run h
                      \<lparr>rq_args = args, rq_shell = shell, rq_capture_output = capture_output,
                       rq_check = False, rq_forwarded = kw\<rparr> w) = Inr output
           \<and> (returncode output = 0 \<or> returncode output \<in> set ign) \<and> capture_output))
   \<and> ((fst (run_subprocess h args ign capture_output shell kw w) = Inr None)
        = (\<exists>output. fst (subprocess_run h
                      \<lparr>rq_args = args, rq_shell = shell, rq_capture_output = capture_output,
                       rq_check = False, rq_forwarded = kw\<rparr> w) = Inr output
           \<and> (returncode output = 0 \<or> returncode output \<in> set ign) \<and> \<not> capture_output))"
proof -
  obtain r w' where r: "subprocess_run h
                      \<lparr>rq_args = args, rq_shell = shell, rq_capture_output = capture_output,
                       rq_check = False, rq_forwarded = kw\<rparr> w = (r, w')"
    by (cases "subprocess_run h
                      \<lparr>rq_args = args, rq_shell = shell, rq_capture_output = capture_output,
                       rq_check = False, rq_forwarded = kw\<rparr> w") auto
  show ?thesis
  proof (cases r)
    case (Inl e)
    with r show ?thesis by (simp add: run_subprocess_def)
  next
    case (Inr out)
    with r show ?thesis by (auto simp: run_subprocess_def check_returncode_def)
  qed
qed

text \<open>
  The amended claim at concrete subprocesses: exit code 3, ignored, with the output
  captured; exit code 3, not ignored; exit code 0 without capture.
\<close>

theorem run_subprocess_raises_iff_witness:
  "fst (run_subprocess (fixed_code_host 3) ''adb devices'' [3] True False () all_present)
       = Inr (Some \<lparr>cp_args = ''adb devices'', returncode = 3, cp_stdout = None\<rparr>)
   \<and> (\<exists>e. fst (run_subprocess (fixed_code_host 3) ''adb devices'' [] True False ()
                 all_present) = Inl e)
   \<and> fst (run_subprocess (fixed_code_host 0) ''adb devices'' [] False False () all_present)
       = Inr None"
proof -
  have a: "fst (run_subprocess (fixed_code_host 3) ''adb devices'' [3] True False () all_present)
       = Inr (Some \<lparr>cp_args = ''adb devices'', returncode = 3, cp_stdout = None\<rparr>)"
    using run_subprocess_raises_iff
            [of "fixed_code_host 3" "''adb devices''" "[3]" True False "()" all_present
                "\<lparr>cp_args = ''adb devices'', returncode = 3, cp_stdout = None\<rparr>"]
    by (simp add: fixed_code_host_def)
  have b: "\<exists>e. fst (run_subprocess (fixed_code_host 3) ''adb devices'' [] True False ()
                 all_present) = Inl e"
    using run_subprocess_raises_iff
            [of "fixed_code_host 3" "''adb devices''" "[]" True False "()" all_present]
    by (simp add: fixed_code_host_def)
  have c: "fst (run_subprocess (fixed_code_host 0) ''adb devices'' [] False False () all_present)
       = Inr None"
    using run_subprocess_raises_iff
            [of "fixed_code_host 0" "''adb devices''" "[]" False False "()" all_present]
    by (simp add: fixed_code_host_def)
  from a b c show ?thesis by simp
qed

subsection \<open>convert_simpleperf_to_gecko\<close>

text \<open>
  Claim C2, as stated, fails: the stages' exit codes are inspected. Here stage 1 exits
  with 0, stage 2 exits with 1, the output file exists afterwards, and the conversion
  raises CalledProcessError all the same.
\<close>

theorem convert_raises_with_output_file_present:
  "fst (convert_simpleperf_to_gecko
          (two_stage_host (binary_cache_command ''/scripts'' ''/path/file.data'' ''/symbols'') 0 1)
          () ''/scripts'' ''/path/file.data'' ''/path/file.json'' ''/symbols'' all_present)
     = Inl (CalledProcessError 1
              (gecko_command ''/scripts'' ''/path/file.data'' ''/path/file.json''))
   \<and> os_path_exists
        (snd (convert_simpleperf_to_gecko
          (two_stage_host (binary_cache_command ''/scripts'' ''/path/file.data'' ''/symbols'') 0 1)
          () ''/scripts'' ''/path/file.data'' ''/path/file.json'' ''/symbols'' all_present))
        ''/path/file.json''"
  by (simp add: convert_simpleperf_to_gecko_def run_subprocess_def check_returncode_def
        path_exists_def Let_def two_stage_host_def all_present_def print_def
        binary_cache_command_def gecko_command_def)

text \<open>
  Claim C2, amended. When both stages complete, \<open>convert_simpleperf_to_gecko\<close> raises
  exactly when stage 1 exits with a non-zero code, or stage 2 does, or the stage-2 output
  file does not exist after stage 2.
\<close>

theorem convert_raises_iff:
  assumes "subprocess_run h
             \<lparr>rq_args = binary_cache_command (expanduser h scripts_path) raw (expanduser h symbols),
              rq_shell = True, rq_capture_output = False, rq_check = False, rq_forwarded = kw\<rparr>
             (print (''Building binary cache, please wait. If no samples were recorded,'' @
                     '' the trace will be empty.'') w0) = (Inr cp1, w2)"
      and "subprocess_run h
             \<lparr>rq_args = gecko_command (expanduser h scripts_path) raw gecko,
              rq_shell = True, rq_capture_output = False, rq_check = False, rq_forwarded = kw\<rparr>
             w2 = (Inr cp2, w3)"
  shows "(\<exists>e. fst (convert_simpleperf_to_gecko h kw scripts_path raw gecko symbols w0) = Inl e)
       = (returncode cp1 \<noteq> 0 \<or> returncode cp2 \<noteq> 0
          \<or> \<not> os_path_exists w3 (expanduser h gecko))"
  using assms
  by (auto simp: convert_simpleperf_to_gecko_def run_subprocess_def check_returncode_def
        path_exists_def Let_def)

text \<open>
  The amended claim where both stages exit with 0 and the output file exists: the
  conversion does not raise.
\<close>

theorem convert_raises_iff_witness:
  "\<not> (\<exists>e. fst (convert_simpleperf_to_gecko (fixed_code_host 0) ()
                  ''/scripts'' ''/path/file.data'' ''/path/file.json'' ''/symbols'' all_present)
             = Inl e)"
proof -
  have s1: "subprocess_run (fixed_code_host 0)
             \<lparr>rq_args = binary_cache_command (expanduser (fixed_code_host 0) ''/scripts'')
                          ''/path/file.data'' (expanduser (fixed_code_host 0) ''/symbols''),
              rq_shell = True, rq_capture_output = False, rq_check = False, rq_forwarded = ()\<rparr>
             (print (''Building binary cache, please wait. If no samples were recorded,'' @
                     '' the trace will be empty.'') all_present)
          = (Inr \<lparr>cp_args = binary_cache_command ''/scripts'' ''/path/file.data'' ''/symbols'',
                  returncode = 0, cp_stdout = None\<rparr>,
             print (''Building binary cache, please wait. If no samples were recorded,'' @
                     '' the trace will be empty.'') all_present)"
    by (simp add: fixed_code_host_def)
  have s2: "subprocess_run (fixed_code_host 0)
             \<lparr>rq_args = gecko_command (expanduser (fixed_code_host 0) ''/scripts'')
                          ''/path/file.data'' ''/path/file.json'',
              rq_shell = True, rq_capture_output = False, rq_check = False, rq_forwarded = ()\<rparr>
             (print (''Building binary cache, please wait. If no samples were recorded,'' @
                     '' the trace will be empty.'') all_present)
          = (Inr \<lparr>cp_args = gecko_command ''/scripts'' ''/path/file.data'' ''/path/file.json'',
                  returncode = 0, cp_stdout = None\<rparr>,
             print (''Building binary cache, please wait. If no samples were recorded,'' @
                     '' the trace will be empty.'') all_present)"
    by (simp add: fixed_code_host_def)
  from convert_raises_iff [OF s1 s2]
  show ?thesis by (simp add: all_present_def print_def)
qed

subsection \<open>wait_for_output\<close>

text \<open>\<open>py_in\<close> is the substring relation.\<close>

lemma starts_with_iff: "starts_with p s = (\<exists>zs. s = p @ zs)"
  by (induction p s rule: starts_with.induct) auto

lemma py_in_iff: "py_in p s = (\<exists>ys zs. s = ys @ p @ zs)"
proof (induction s)
  case Nil
  then show ?case by auto
next
  case (Cons c cs)
  show ?case
  proof
    assume "py_in p (c # cs)"
    then consider "starts_with p (c # cs)" | "py_in p cs" by auto
    then show "\<exists>ys zs. c # cs = ys @ p @ zs"
    proof cases
      case 1
      then obtain zs where "c # cs = p @ zs" by (auto simp: starts_with_iff)
      then have "c # cs = [] @ p @ zs" by simp
      then show ?thesis by blast
    next
      case 2
      with Cons.IH obtain ys zs where "cs = ys @ p @ zs" by auto
      then have "c # cs = (c # ys) @ p @ zs" by simp
      then show ?thesis by blast
    qed
  next
    assume "\<exists>ys zs. c # cs = ys @ p @ zs"
    then obtain ys zs where e: "c # cs = ys @ p @ zs" by auto
    show "py_in p (c # cs)"
    proof (cases ys)
      case Nil
      with e have "starts_with p (c # cs)" by (auto simp: starts_with_iff)
      then show ?thesis by simp
    next
      case (Cons y ys')
      with e have "cs = ys' @ p @ zs" by simp
      with Cons.IH have "py_in p cs" by auto
      then show ?thesis by simp
    qed
  qed
qed

text \<open>Reads within budget that return text without the pattern only move the loop on.\<close>

lemma wait_loop_skip:
  assumes "\<forall>j. i \<le> j \<and> j < n \<longrightarrow>
             clock (Suc j) - start < timeout \<and> is_line (reads j) \<and> \<not> matches p (reads j)"
      and "i \<le> n"
  shows "wait_loop p clock reads start timeout i = wait_loop p clock reads start timeout n"
  using assms
proof (induction "n - i" arbitrary: i)
  case 0
  then show ?case by simp
next
  case (Suc k)
  then have lt: "i < n" by simp
  with Suc.prems have a:
    "clock (Suc i) - start < timeout" "is_line (reads i)" "\<not> matches p (reads i)"
    by auto
  have one: "wait_loop p clock reads start timeout i
               = wait_loop p clock reads start timeout (Suc i)"
    using a
    by (subst wait_loop.simps) (auto simp: is_line_def matches_def split: read_result.splits)
  have "wait_loop p clock reads start timeout (Suc i) = wait_loop p clock reads start timeout n"
    using Suc.hyps(1)[of "Suc i"] Suc.hyps(2) Suc.prems lt by auto
  with one show ?case by simp
qed

lemma wait_loop_timeout:
  "\<not> clock (Suc n) - start < timeout
     \<Longrightarrow> wait_loop p clock reads start timeout n = Some (Inr True)"
  by (subst wait_loop.simps) simp

lemma wait_loop_match:
  "clock (Suc n) - start < timeout \<Longrightarrow> matches p (reads n)
     \<Longrightarrow> wait_loop p clock reads start timeout n = Some (Inr False)"
  by (subst wait_loop.simps) (auto simp: matches_def split: read_result.splits)

lemma wait_for_output_first_match:
  assumes "\<forall>j<m. in_budget clock timeout j \<and> is_line (reads j) \<and> \<not> matches p (reads j)"
      and "in_budget clock timeout m" and "matches p (reads m)"
  shows "wait_for_output p clock reads timeout = Some (Inr False)"
proof -
  have "wait_loop p clock reads (clock 0) timeout 0
          = wait_loop p clock reads (clock 0) timeout m"
    using assms(1) by (intro wait_loop_skip) (auto simp: in_budget_def)
  then show ?thesis
    using assms(2,3) by (simp add: wait_for_output_def wait_loop_match in_budget_def)
qed

lemma wait_for_output_no_match:
  assumes "\<forall>j<n. in_budget clock timeout j \<and> is_line (reads j) \<and> \<not> matches p (reads j)"
      and "\<not> in_budget clock timeout n"
  shows "wait_for_output p clock reads timeout = Some (Inr True)"
proof -
  have "wait_loop p clock reads (clock 0) timeout 0
          = wait_loop p clock reads (clock 0) timeout n"
    using assms(1) by (intro wait_loop_skip) (auto simp: in_budget_def)
  then show ?thesis
    using assms(2) by (simp add: wait_for_output_def wait_loop_timeout in_budget_def)
qed

lemma wait_for_output_decided:
  assumes h: "(\<forall>j<n. in_budget clock timeout j \<and> is_line (reads j))
                \<and> \<not> in_budget clock timeout n"
  shows "wait_for_output p clock reads timeout
           = Some (Inr (\<not> (\<exists>j<n. matches p (reads j))))"
proof (cases "\<exists>j<n. matches p (reads j)")
  case False
  with h have "wait_for_output p clock reads timeout = Some (Inr True)"
    by (intro wait_for_output_no_match[of n]) auto
  with False show ?thesis by simp
next
  case True
  define m where "m = (LEAST j. j < n \<and> matches p (reads j))"
  from True have mm: "m < n \<and> matches p (reads m)"
    unfolding m_def by (rule LeastI_ex)
  have "\<forall>j<m. \<not> matches p (reads j)"
  proof (intro allI impI)
    fix j assume "j < m"
    then have "\<not> (j < n \<and> matches p (reads j))" unfolding m_def by (rule not_less_Least)
    with \<open>j < m\<close> mm show "\<not> matches p (reads j)" by simp
  qed
  with h mm have "wait_for_output p clock reads timeout = Some (Inr False)"
    by (intro wait_for_output_first_match[of m]) auto
  with True show ?thesis by simp
qed

text \<open>
  Claim C1, as stated, fails. The budget is 5 seconds and the clock passes it (the fifth
  loop test would find it exhausted). With a child that writes nothing, so that the
  first read never returns, the call never returns, although no observed line contains
  the pattern; with a first line that is not valid UTF-8 the call raises
  UnicodeDecodeError instead of returning True.
\<close>

theorem wait_for_output_blocked_or_undecodable:
  "wait_for_output ''ready'' ticking_clock silent_process 5 = None
   \<and> wait_for_output ''ready'' ticking_clock garbled_process 5 = Some (Inl UnicodeDecodeError)
   \<and> \<not> in_budget ticking_clock 5 4
   \<and> \<not> matches ''ready'' (silent_process 0)
   \<and> \<not> matches ''ready'' (garbled_process 0)"
  by (simp add: wait_for_output_def wait_loop.simps ticking_clock_def silent_process_def
        garbled_process_def in_budget_def matches_def)

text \<open>
  Claim C1, amended. If every read made while budget is left returns a line that decodes,
  and the \<open>n\<close>-th loop test is the first to find the budget exhausted, then
  \<open>wait_for_output\<close> returns True exactly when none of the \<open>n\<close> observed lines contains
  the pattern, and False exactly when one does. And whenever the \<open>m\<close>-th read is the
  first to return a line that contains the pattern, all reads up to it being made within
  budget, the call returns False, whatever the clock shows afterwards.
\<close>

theorem wait_for_output_returns:
  "((\<forall>j<n. in_budget clock timeout j \<and> is_line (reads j)) \<and> \<not> in_budget clock timeout n
      \<longrightarrow> ((wait_for_output p clock reads timeout = Some (Inr True))
             = (\<forall>j<n. \<not> matches p (reads j)))
        \<and> ((wait_for_output p clock reads timeout = Some (Inr False))
             = (\<exists>j<n. matches p (reads j))))
   \<and> ((\<forall>j<m. in_budget clock timeout j \<and> is_line (reads j) \<and> \<not> matches p (reads j))
        \<and> in_budget clock timeout m \<and> matches p (reads m)
      \<longrightarrow> wait_for_output p clock reads timeout = Some (Inr False))"
proof (intro conjI impI)
  assume h: "(\<forall>j<n. in_budget clock timeout j \<and> is_line (reads j))
               \<and> \<not> in_budget clock timeout n"
  from wait_for_output_decided [OF h, of p]
  show "(wait_for_output p clock reads timeout = Some (Inr True))
          = (\<forall>j<n. \<not> matches p (reads j))"
    by auto
  from wait_for_output_decided [OF h, of p]
  show "(wait_for_output p clock reads timeout = Some (Inr False))
          = (\<exists>j<n. matches p (reads j))"
    by auto
next
  assume "(\<forall>j<m. in_budget clock timeout j \<and> is_line (reads j) \<and> \<not> matches p (reads j))
        \<and> in_budget clock timeout m \<and> matches p (reads m)"
  then show "wait_for_output p clock reads timeout = Some (Inr False)"
    by (intro wait_for_output_first_match[of m]) auto
qed

lemma all_less_3: "(\<forall>j<3::nat. P j) = (P 0 \<and> P 1 \<and> P 2)"
proof -
  have "\<And>j::nat. (j < 3) = (j = 0 \<or> j = 1 \<or> j = 2)" by arith
  then show ?thesis by auto
qed

lemma all_less_2: "(\<forall>j<2::nat. P j) = (P 0 \<and> P 1)"
proof -
  have "\<And>j::nat. (j < 2) = (j = 0 \<or> j = 1)" by arith
  then show ?thesis by auto
qed

lemma ex_less_3: "(\<exists>j<3::nat. P j) = (P 0 \<or> P 1 \<or> P 2)"
proof -
  have "\<And>j::nat. (j < 3) = (j = 0 \<or> j = 1 \<or> j = 2)" by arith
  then show ?thesis by auto
qed

text \<open>
  The amended claim on a clock that ticks once a second: with a budget of 4 seconds three
  lines are observed; a stream without the pattern times out, a stream whose third line
  has it returns False, also under a budget of 1000 seconds.
\<close>

theorem wait_for_output_returns_witness:
  "wait_for_output ''ready'' ticking_clock never_ready 4 = Some (Inr True)
   \<and> wait_for_output ''ready'' ticking_clock ready_at_third 4 = Some (Inr False)
   \<and> wait_for_output ''ready'' ticking_clock ready_at_third 1000 = Some (Inr False)"
proof -
  have a: "wait_for_output ''ready'' ticking_clock never_ready 4 = Some (Inr True)"
    using wait_for_output_returns [of 3 ticking_clock 4 never_ready "''ready''" 0]
    by (simp add: all_less_3 ex_less_3 in_budget_def is_line_def matches_def
          ticking_clock_def never_ready_def)
  have b: "wait_for_output ''ready'' ticking_clock ready_at_third 4 = Some (Inr False)"
    using wait_for_output_returns [of 3 ticking_clock 4 ready_at_third "''ready''" 0]
    by (simp add: all_less_3 ex_less_3 in_budget_def is_line_def matches_def
          ticking_clock_def ready_at_third_def)
  have c: "wait_for_output ''ready'' ticking_clock ready_at_third 1000 = Some (Inr False)"
    using wait_for_output_returns [of 0 ticking_clock 1000 ready_at_third "''ready''" 2]
    by (simp add: all_less_2 in_budget_def is_line_def matches_def
          ticking_clock_def ready_at_third_def)
  from a b c show ?thesis by simp
qed

subsection \<open>wait_for_process_or_ctrl_c\<close>

lemma foldl_step_done: "status s \<noteq> Waiting \<Longrightarrow> foldl step s es = s"
proof (induction es)
  case Nil
  then show ?case by simp
next
  case (Cons e es)
  from Cons.prems have "step s e = s"
    by (cases "status s") (simp_all add: step_def)
  with Cons show ?case by simp
qed

text \<open>
  Claim C6. When SIGINT or SIGTERM is delivered while the wait is in flight, the handler
  kills the child and then exits the program: the kill and the exit are the last two
  effects, in this order, the program has exited, whatever happens later changes
  nothing, and the line that follows a completed wait is never printed.
\<close>

theorem interrupt_kills_then_exits:
  "wait_for_process_or_ctrl_c (Deliver sig # later)
     = \<lparr>status = Exited,
        effects = [SignalSignal SIGINT, SignalSignal SIGTERM, ProcessWait,
                   Print ''Exiting...'', ProcessKill, SysExit]\<rparr>
   \<and> Print ''Process was killed.''
       \<notin> set (effects (wait_for_process_or_ctrl_c (Deliver sig # later)))"
proof -
  have "wait_for_process_or_ctrl_c (Deliver sig # later)
     = \<lparr>status = Exited,
        effects = [SignalSignal SIGINT, SignalSignal SIGTERM, ProcessWait,
                   Print ''Exiting...'', ProcessKill, SysExit]\<rparr>"
    by (simp add: wait_for_process_or_ctrl_c_def step_def signal_handler_def foldl_step_done)
  then show ?thesis by simp
qed

section \<open>Properties of config.py\<close>

subsection \<open>execute_config_command\<close>

text \<open>
  Claim C7. Executing \<open>config list\<close> prints the names of the predefined configs in the
  order of the table, and executing it again in the world the first execution left
  prints the identical line once more.
\<close>

theorem config_list_is_stable:
  assumes "config_subcommand args = Some ''list''"
  shows "execute_config_command h kw imp args dev w
           = (Inr None,
              print (py_join ''\<newline>'' (map fst (PREDEFINED_PERFETTO_CONFIGS imp))) w)
       \<and> execute_config_command h kw imp args dev
             (snd (execute_config_command h kw imp args dev w))
           = (Inr None,
              print (py_join ''\<newline>'' (map fst (PREDEFINED_PERFETTO_CONFIGS imp)))
                (print (py_join ''\<newline>'' (map fst (PREDEFINED_PERFETTO_CONFIGS imp))) w))"
  using assms by (simp add: execute_config_command_def create_config_command_def Let_def)

text \<open>Two listings of the sample table, one after the other.\<close>

theorem config_list_is_stable_witness:
  "console (snd (execute_config_command (fixed_code_host 0) () sample_imported
                   (config_args ''list'' [] None) unreachable_device
                   (snd (execute_config_command (fixed_code_host 0) () sample_imported
                           (config_args ''list'' [] None) unreachable_device all_present))))
     = [''default\<newline>lightweight\<newline>memory'', ''default\<newline>lightweight\<newline>memory'']"
proof -
  have h: "config_subcommand (config_args ''list'' [] None) = Some ''list''"
    by (simp add: config_args_def)
  note twice = config_list_is_stable [OF h, of "fixed_code_host 0" "()" sample_imported
                 unreachable_device all_present]
  from twice [THEN conjunct2]
  have "console (snd (execute_config_command (fixed_code_host 0) () sample_imported
                   (config_args ''list'' [] None) unreachable_device
                   (snd (execute_config_command (fixed_code_host 0) () sample_imported
                           (config_args ''list'' [] None) unreachable_device all_present))))
      = console
          (print (py_join ''\<newline>'' (map fst (PREDEFINED_PERFETTO_CONFIGS sample_imported)))
             (print (py_join ''\<newline>'' (map fst (PREDEFINED_PERFETTO_CONFIGS sample_imported)))
                all_present))"
    by (simp only: snd_conv)
  also have "\<dots> = [''default\<newline>lightweight\<newline>memory'', ''default\<newline>lightweight\<newline>memory'']"
    by (simp add: sample_imported_def print_def all_present_def)
  finally show ?thesis .
qed

subsection \<open>execute_show_or_pull_command\<close>

text \<open>
  Claim C8, as stated, fails in its last part: with no device connected the config output
  is not always produced. A pull whose shell command exits with 1 raises
  CalledProcessError, and a builder that returns an error has that error returned; in
  both cases nothing is printed and the connection check is the only call on the device.
\<close>

theorem show_or_pull_without_device_no_output:
  "execute_show_or_pull_command (fixed_code_host 1) () sample_imported
       (sample_command ''config pull'' (Some ''out.pbtxt'')) unreachable_device all_present
     = (Inl (CalledProcessError 1
               (''cat > out.pbtxt <<EOF\<newline>\<newline>buffers: { size_kb: 4096 }\<newline>duration_ms: 10000\<newline>\<newline>EOF'')),
        all_present\<lparr>device_log := [CheckDeviceConnection]\<rparr>)
   \<and> execute_show_or_pull_command (fixed_code_host 0) () rejecting_imported
       (sample_command ''config show'' None) unreachable_device all_present
     = (Inr (Some (ValidationError ''Cannot build the config for these events.'' None)),
        all_present\<lparr>device_log := [CheckDeviceConnection]\<rparr>)"
  by (simp add: execute_show_or_pull_command_def Let_def sample_command_def sample_imported_def
        sample_builder_def rejecting_imported_def rejecting_builder_def unreachable_device_def
        run_subprocess_def check_returncode_def fixed_code_host_def cat_command_def called_def
        all_present_def)

text \<open>
  Claim C8, amended. When the connection check returns an error,
  \<open>execute_show_or_pull_command\<close> makes no further call on the device and hands
  \<open>ANDROID_SDK_VERSION_T\<close> to the builder of the named config. If the builder returns a
  config, show prints its lines but the first two and the last two and returns no error,
  and pull runs the shell command \<open>cat > <path> <config>\<close> and returns no error when
  that command exits with 0, raising CalledProcessError otherwise. If the builder
  returns an error, that error is returned. The error of the connection check is never
  returned.
\<close>

theorem show_or_pull_without_device:
  assumes "connection_error dev = Some e"
      and "cmd_config_name command = Some name"
      and "map_of (PREDEFINED_PERFETTO_CONFIGS imp) name = Some build"
  shows "(\<forall>config. build command (ANDROID_SDK_VERSION_T imp) = (config, None)
            \<and> cmd_type command \<noteq> ''config pull''
          \<longrightarrow> execute_show_or_pull_command h kw imp command dev w
                = (Inr None,
                   print (py_join ''\<newline>''
                            (drop 2 (take (length (split_lines (py_strip config)) - 2)
                                       (split_lines (py_strip config)))))
                     (w\<lparr>device_log := device_log w @ [CheckDeviceConnection]\<rparr>)))
       \<and> (\<forall>config path output w'.
            build command (ANDROID_SDK_VERSION_T imp) = (config, None)
            \<and> cmd_type command = ''config pull'' \<and> cmd_file_path command = Some path
            \<and> subprocess_run h
                 \<lparr>rq_args = ''cat > '' @ path @ '' '' @ config, rq_shell = True,
                  rq_capture_output = False, rq_check = False, rq_forwarded = kw\<rparr>
                 (w\<lparr>device_log := device_log w @ [CheckDeviceConnection]\<rparr>) = (Inr output, w')
          \<longrightarrow> execute_show_or_pull_command h kw imp command dev w
                = (if returncode output = 0 then Inr None
                   else Inl (CalledProcessError (returncode output) (cp_args output)), w'))
       \<and> (\<forall>config error. build command (ANDROID_SDK_VERSION_T imp) = (config, Some error)
          \<longrightarrow> execute_show_or_pull_command h kw imp command dev w
                = (Inr (Some error), w\<lparr>device_log := device_log w @ [CheckDeviceConnection]\<rparr>))"
  using assms
  by (auto simp: execute_show_or_pull_command_def Let_def run_subprocess_def
        check_returncode_def cat_command_def shown_text_def slice_2_minus_2_def called_def)

text \<open>
  \<open>config show default\<close> and \<open>config pull default out.pbtxt\<close> with no device
  connected: the config built for SDK 33, the value of \<open>ANDROID_SDK_VERSION_T\<close> in the
  sample table, is printed or written (the device would have reported 30), and the
  connection check is the only call on the device.
\<close>

theorem show_or_pull_without_device_witness:
  "execute_show_or_pull_command (fixed_code_host 0) () sample_imported
       (sample_command ''config show'' None) unreachable_device all_present
     = (Inr None,
        all_present\<lparr>console := [''buffers: { size_kb: 4096 }\<newline>duration_ms: 10000''],
                     device_log := [CheckDeviceConnection]\<rparr>)
   \<and> execute_show_or_pull_command (fixed_code_host 0) () sample_imported
       (sample_command ''config pull'' (Some ''out.pbtxt'')) unreachable_device all_present
     = (Inr None, all_present\<lparr>device_log := [CheckDeviceConnection]\<rparr>)"
proof -
  have a: "connection_error unreachable_device
             = Some (ValidationError ''There are currently no devices connected.'' None)"
    by (simp add: unreachable_device_def)
  have c: "map_of (PREDEFINED_PERFETTO_CONFIGS sample_imported) ''default''
             = Some sample_builder"
    by (simp add: sample_imported_def)
  have bs: "cmd_config_name (sample_command ''config show'' None) = Some ''default''"
    by (simp add: sample_command_def)
  have bp: "cmd_config_name (sample_command ''config pull'' (Some ''out.pbtxt'')) = Some ''default''"
    by (simp add: sample_command_def)
  have ds: "sample_builder (sample_command ''config show'' None)
              (ANDROID_SDK_VERSION_T sample_imported)
             = (''<<EOF\<newline>\<newline>buffers: { size_kb: 4096 }\<newline>duration_ms: 10000\<newline>\<newline>EOF'', None)
           \<and> cmd_type (sample_command ''config show'' None) \<noteq> ''config pull''"
    by (simp add: sample_builder_def sample_imported_def sample_command_def)
  have dp: "sample_builder (sample_command ''config pull'' (Some ''out.pbtxt''))
              (ANDROID_SDK_VERSION_T sample_imported)
             = (''<<EOF\<newline>\<newline>buffers: { size_kb: 4096 }\<newline>duration_ms: 10000\<newline>\<newline>EOF'', None)
           \<and> cmd_type (sample_command ''config pull'' (Some ''out.pbtxt'')) = ''config pull''
           \<and> cmd_file_path (sample_command ''config pull'' (Some ''out.pbtxt'')) = Some ''out.pbtxt''
           \<and> subprocess_run (fixed_code_host 0)
                 \<lparr>rq_args = ''cat > '' @ ''out.pbtxt'' @ '' '' @
                             ''<<EOF\<newline>\<newline>buffers: { size_kb: 4096 }\<newline>duration_ms: 10000\<newline>\<newline>EOF'',
                  rq_shell = True,
                  rq_capture_output = False, rq_check = False, rq_forwarded = ()\<rparr>
                 (all_present\<lparr>device_log := device_log all_present @ [CheckDeviceConnection]\<rparr>)
               = (Inr \<lparr>cp_args = ''cat > '' @ ''out.pbtxt'' @ '' '' @
                             ''<<EOF\<newline>\<newline>buffers: { size_kb: 4096 }\<newline>duration_ms: 10000\<newline>\<newline>EOF'',
                       returncode = 0, cp_stdout = None\<rparr>,
                  all_present\<lparr>device_log := device_log all_present @ [CheckDeviceConnection]\<rparr>)"
    by (simp add: sample_builder_def sample_imported_def sample_command_def fixed_code_host_def)
  have one: "execute_show_or_pull_command (fixed_code_host 0) () sample_imported
       (sample_command ''config show'' None) unreachable_device all_present
     = (Inr None,
        all_present\<lparr>console := [''buffers: { size_kb: 4096 }\<newline>duration_ms: 10000''],
                     device_log := [CheckDeviceConnection]\<rparr>)"
    using show_or_pull_without_device
            [OF a bs c, of "fixed_code_host 0" "()" all_present, THEN conjunct1,
             rule_format, OF ds]
    by (simp add: py_strip_def is_space_def print_def all_present_def)
  have two: "execute_show_or_pull_command (fixed_code_host 0) () sample_imported
       (sample_command ''config pull'' (Some ''out.pbtxt'')) unreachable_device all_present
     = (Inr None, all_present\<lparr>device_log := [CheckDeviceConnection]\<rparr>)"
    using show_or_pull_without_device
            [OF a bp c, of "fixed_code_host 0" "()" all_present, THEN conjunct2, THEN conjunct1,
             rule_format, OF dp]
    by (simp add: all_present_def)
  from one two show ?thesis by simp
qed

subsection \<open>verify_config_args\<close>

text \<open>
  Claim C10, as stated, fails in its first part: a pull command without a destination
  path can still be rejected. \<open>torq config pull default --trigger-timeout-ms 10000\<close>
  has no path and no trigger names, and the check of the trigger arguments, whose result
  \<open>verify_config_args\<close> returns, rejects it.
\<close>

theorem verify_config_args_pull_rejected_without_path:
  "file_path ((config_args ''pull'' ''default'' None)\<lparr>trigger_timeout_ms := Some 10000\<rparr>) = None
   \<and> verify_config_args (verify_trigger_args sample_limits) nothing_present
        ((config_args ''pull'' ''default'' None)\<lparr>trigger_timeout_ms := Some 10000\<rparr>)
      = Inl (ValidationError
               (''Command is invalid because --trigger-timeout-ms cannot be set'' @
                '' without --trigger-names.'')
               (Some ''Set --trigger-names or remove --trigger-timeout-ms.''))"
  by (simp add: verify_config_args_def verify_trigger_args_def config_args_def)

text \<open>
  Claim C10, amended. For a pull command without a destination path,
  \<open>verify_config_args\<close> sets the path to \<open>./<config_name>.pbtxt\<close> and returns what
  the check of the trigger arguments returns on the arguments with this path: no error
  when that check accepts them. For a pull command whose destination path is not an
  existing regular file it returns a ValidationError that names the path, whatever the
  trigger arguments are.
\<close>

theorem verify_config_args_pull_path:
  assumes "config_subcommand args = Some ''pull''"
  shows "(file_path args = None \<longrightarrow>
            verify_config_args vta w args
              = vta (args\<lparr>file_path := Some (''./'' @ config_name args @ ''.pbtxt''),
                          runs := Some 1, profiler := Some ''perfetto''\<rparr>))
       \<and> (\<forall>args'. file_path args = None
             \<and> vta (args\<lparr>file_path := Some (''./'' @ config_name args @ ''.pbtxt''),
                          runs := Some 1, profiler := Some ''perfetto''\<rparr>) = Inr args'
            \<longrightarrow> verify_config_args vta w args = Inr args')
       \<and> (\<forall>path. file_path args = Some path \<and> \<not> os_path_isfile w path \<longrightarrow>
            (\<exists>s. verify_config_args vta w args
               = Inl (ValidationError
                       (''Command is invalid because '' @ path @ '' is not a valid filepath.'')
                       s)))"
  using assms by (auto simp: verify_config_args_def)

text \<open>
  With the check of the trigger arguments taken from the specification,
  \<open>torq config pull default\<close> gets the path \<open>./default.pbtxt\<close> and no error;
  \<open>torq config pull default out.pbtxt\<close>, where \<open>out.pbtxt\<close> does not exist, is
  rejected.
\<close>

theorem verify_config_args_pull_path_witness:
  "verify_config_args (verify_trigger_args sample_limits) nothing_present
       (config_args ''pull'' ''default'' None)
     = Inr ((config_args ''pull'' ''default'' None)
              \<lparr>file_path := Some ''./default.pbtxt'', runs := Some 1,
               profiler := Some ''perfetto''\<rparr>)
   \<and> (\<exists>s. verify_config_args (verify_trigger_args sample_limits) nothing_present
             (config_args ''pull'' ''default'' (Some ''out.pbtxt''))
           = Inl (ValidationError
                    ''Command is invalid because out.pbtxt is not a valid filepath.'' s))"
proof -
  have a: "config_subcommand (config_args ''pull'' ''default'' None) = Some ''pull''"
    by (simp add: config_args_def)
  have b: "config_subcommand (config_args ''pull'' ''default'' (Some ''out.pbtxt''))
             = Some ''pull''"
    by (simp add: config_args_def)
  from verify_config_args_pull_path
         [OF a, of "verify_trigger_args sample_limits" nothing_present, THEN conjunct1]
  have one: "verify_config_args (verify_trigger_args sample_limits) nothing_present
               (config_args ''pull'' ''default'' None)
     = Inr ((config_args ''pull'' ''default'' None)
              \<lparr>file_path := Some ''./default.pbtxt'', runs := Some 1,
               profiler := Some ''perfetto''\<rparr>)"
    by (simp add: config_args_def verify_trigger_args_def)
  from verify_config_args_pull_path
         [OF b, of "verify_trigger_args sample_limits" nothing_present]
  have two: "\<exists>s. verify_config_args (verify_trigger_args sample_limits) nothing_present
             (config_args ''pull'' ''default'' (Some ''out.pbtxt''))
           = Inl (ValidationError
                    ''Command is invalid because out.pbtxt is not a valid filepath.'' s)"
    by (simp add: config_args_def nothing_present_def)
  from one two show ?thesis by simp
qed

section \<open>Properties of the parts taken from the specification\<close>

subsection \<open>Stop delays of triggers\<close>

lemma device_log_print_error: "device_log (print_error e w) = device_log w"
  by (cases e) (simp add: print_error_def print_def Let_def split: option.splits)

text \<open>
  Claim C3. A single stop delay is broadcast to every trigger name, and arguments with a
  single stop delay pass the check of the trigger arguments when they break no other
  rule. A list of stop delays that has neither one element nor as many as there are
  trigger names is rejected with a ValidationError. Whenever \<open>verify_args\<close> returns a
  ValidationError, \<open>run\<close> prints it and stops with the device log as it was: no device
  object is created and no call is made on one. A \<open>config show\<close> or \<open>config pull\<close>
  command with such a list of stop delays is one of these cases.
\<close>

theorem stop_delays_broadcast_or_rejected:
  "trigger_stop_delays names [d] = map (\<lambda>name. (name, d)) names
   \<and> (trigger_names args = Some names \<and> trigger_stop_delay_ms args = Some [d]
        \<and> MIN_STOP_DELAY_MS bounds \<le> d
        \<and> profiler args = Some ''perfetto'' \<and> dur_ms args = None
        \<and> (runs args = None \<or> runs args = Some 1) \<and> trigger_timeout_ms args = None
      \<longrightarrow> verify_trigger_args bounds args = Inr args)
   \<and> (trigger_names args = Some names \<and> trigger_stop_delay_ms args = Some delays
        \<and> length delays \<noteq> 1 \<and> length delays \<noteq> length names
      \<longrightarrow> (\<exists>e. verify_trigger_args bounds args = Inl e))
   \<and> (verify_args col w args = Inr (Inl error)
      \<longrightarrow> run col args w = (Inr (), print_error error w)
          \<and> device_log (snd (run col args w)) = device_log w)
   \<and> (verify_trigger_args_of col = verify_trigger_args bounds
        \<and> subcommands args = ''config''
        \<and> (config_subcommand args = Some ''show'' \<or> config_subcommand args = Some ''pull'')
        \<and> trigger_names args = Some names \<and> trigger_stop_delay_ms args = Some delays
        \<and> length delays \<noteq> 1 \<and> length delays \<noteq> length names
      \<longrightarrow> (\<exists>e. verify_args col w args = Inr (Inl e)))"
proof (intro conjI impI)
  show "trigger_stop_delays names [d] = map (\<lambda>name. (name, d)) names"
    by (simp add: trigger_stop_delays_def)
next
  assume "trigger_names args = Some names \<and> trigger_stop_delay_ms args = Some [d]
        \<and> MIN_STOP_DELAY_MS bounds \<le> d
        \<and> profiler args = Some ''perfetto'' \<and> dur_ms args = None
        \<and> (runs args = None \<or> runs args = Some 1) \<and> trigger_timeout_ms args = None"
  then show "verify_trigger_args bounds args = Inr args"
    by (auto simp: verify_trigger_args_def)
next
  assume "trigger_names args = Some names \<and> trigger_stop_delay_ms args = Some delays
        \<and> length delays \<noteq> 1 \<and> length delays \<noteq> length names"
  then show "\<exists>e. verify_trigger_args bounds args = Inl e"
    by (auto simp: verify_trigger_args_def split: option.splits)
next
  assume v: "verify_args col w args = Inr (Inl error)"
  then show "run col args w = (Inr (), print_error error w)"
    by (simp add: run_def)
  with v show "device_log (snd (run col args w)) = device_log w"
    by (simp add: device_log_print_error)
next
  assume "verify_trigger_args_of col = verify_trigger_args bounds
        \<and> subcommands args = ''config''
        \<and> (config_subcommand args = Some ''show'' \<or> config_subcommand args = Some ''pull'')
        \<and> trigger_names args = Some names \<and> trigger_stop_delay_ms args = Some delays
        \<and> length delays \<noteq> 1 \<and> length delays \<noteq> length names"
  then show "\<exists>e. verify_args col w args = Inr (Inl e)"
    by (auto simp: verify_args_def verify_config_args_def verify_trigger_args_def
          split: option.splits)
qed

text \<open>
  Two trigger names with the single stop delay 1000 are accepted and both get 1000; one
  trigger name with two stop delays is rejected, and the run of such a command prints
  the error and leaves the device log empty.
\<close>

theorem stop_delays_broadcast_or_rejected_witness:
  "trigger_stop_delays [''a.b'', ''c.d''] [1000] = [(''a.b'', 1000), (''c.d'', 1000)]
   \<and> verify_trigger_args sample_limits (trigger_args ''show'' [''a.b'', ''c.d''] [1000])
       = Inr (trigger_args ''show'' [''a.b'', ''c.d''] [1000])
   \<and> (\<exists>e. verify_trigger_args sample_limits (trigger_args ''show'' [''a.b''] [1000, 1000])
            = Inl e)
   \<and> (\<exists>e. run spec_collaborators (trigger_args ''show'' [''a.b''] [1000, 1000]) all_present
            = (Inr (), print_error e all_present))
   \<and> device_log (snd (run spec_collaborators (trigger_args ''show'' [''a.b''] [1000, 1000])
                         all_present)) = []"
proof -
  note t1 = stop_delays_broadcast_or_rejected
              [of "[''a.b'', ''c.d'']" 1000 "trigger_args ''show'' [''a.b'', ''c.d''] [1000]"
                  sample_limits "[1000]" spec_collaborators all_present]
  note t2 = stop_delays_broadcast_or_rejected
              [of "[''a.b'']" 1000 "trigger_args ''show'' [''a.b''] [1000, 1000]"
                  sample_limits "[1000, 1000]" spec_collaborators all_present]
  have a: "trigger_stop_delays [''a.b'', ''c.d''] [1000] = [(''a.b'', 1000), (''c.d'', 1000)]"
    using t1 [THEN conjunct1] by simp
  have b: "verify_trigger_args sample_limits (trigger_args ''show'' [''a.b'', ''c.d''] [1000])
       = Inr (trigger_args ''show'' [''a.b'', ''c.d''] [1000])"
    using t1 [THEN conjunct2, THEN conjunct1]
    by (simp add: trigger_args_def config_args_def sample_limits_def)
  have c: "\<exists>e. verify_trigger_args sample_limits (trigger_args ''show'' [''a.b''] [1000, 1000])
                = Inl e"
    using t2 [THEN conjunct2, THEN conjunct2, THEN conjunct1]
    by (simp add: trigger_args_def config_args_def)
  have d: "\<exists>e. verify_args spec_collaborators all_present
                  (trigger_args ''show'' [''a.b''] [1000, 1000]) = Inr (Inl e)"
    using t2 [THEN conjunct2, THEN conjunct2, THEN conjunct2, THEN conjunct2]
    by (simp add: trigger_args_def config_args_def spec_collaborators_def)
  then obtain e where e: "verify_args spec_collaborators all_present
                  (trigger_args ''show'' [''a.b''] [1000, 1000]) = Inr (Inl e)" ..
  from stop_delays_broadcast_or_rejected
              [of "[''a.b'']" 1000 "trigger_args ''show'' [''a.b''] [1000, 1000]"
                  sample_limits "[1000, 1000]" spec_collaborators all_present e,
               THEN conjunct2, THEN conjunct2, THEN conjunct2, THEN conjunct1, THEN mp, OF e]
  have f: "run spec_collaborators (trigger_args ''show'' [''a.b''] [1000, 1000]) all_present
            = (Inr (), print_error e all_present)
         \<and> device_log (snd (run spec_collaborators
                                (trigger_args ''show'' [''a.b''] [1000, 1000]) all_present))
            = device_log all_present" .
  have g: "device_log all_present = []" by (simp add: all_present_def)
  from a b c f g show ?thesis by auto
qed

subsection \<open>Names of clone snapshots\<close>

lemma digit_char_inj: "a < 10 \<Longrightarrow> b < 10 \<Longrightarrow> digit_char a = digit_char b \<Longrightarrow> a = b"
proof -
  assume a: "a < 10" and b: "b < 10" and e: "digit_char a = digit_char b"
  have d: "distinct ''0123456789''" by simp
  have l: "length ''0123456789'' = 10" by simp
  from e have "''0123456789'' ! a = ''0123456789'' ! b" by (simp add: digit_char_def)
  with d a b l show "a = b" by (metis nth_eq_iff_index_eq)
qed

lemma decimal_nonempty: "decimal n \<noteq> []"
  by (subst decimal.simps) simp

text \<open>Two numbers with the same decimal numeral are equal.\<close>

lemma decimal_inj: "decimal m = decimal n \<Longrightarrow> m = n"
proof (induction m arbitrary: n rule: decimal.induct)
  case (1 m)
  show ?case
  proof (cases "m < 10")
    case True
    then have sm: "decimal m = [digit_char m]" by simp
    show ?thesis
    proof (cases "n < 10")
      case True
      then have "decimal n = [digit_char n]" by simp
      with sm "1.prems" have "digit_char m = digit_char n" by simp
      with \<open>m < 10\<close> True show ?thesis by (rule digit_char_inj)
    next
      case False
      then have "decimal n = decimal (n div 10) @ [digit_char (n mod 10)]"
        by (subst decimal.simps) simp
      with sm "1.prems" have "decimal (n div 10) = []" by simp
      with decimal_nonempty show ?thesis by blast
    qed
  next
    case False
    then have sm: "decimal m = decimal (m div 10) @ [digit_char (m mod 10)]"
      by (subst decimal.simps) simp
    show ?thesis
    proof (cases "n < 10")
      case True
      then have "decimal n = [digit_char n]" by simp
      with sm "1.prems" have "decimal (m div 10) = []" by simp
      with decimal_nonempty show ?thesis by blast
    next
      case nf: False
      then have sn: "decimal n = decimal (n div 10) @ [digit_char (n mod 10)]"
        by (subst decimal.simps) simp
      from sm sn "1.prems" have e1: "decimal (m div 10) = decimal (n div 10)"
        and e2: "digit_char (m mod 10) = digit_char (n mod 10)" by simp_all
      from "1.IH" [OF False e1] have "m div 10 = n div 10" .
      moreover from e2 have "m mod 10 = n mod 10" by (intro digit_char_inj) simp_all
      ultimately show ?thesis by (metis div_mult_mod_eq)
    qed
  qed
qed

lemma clone_artifact_name_inj:
  "clone_artifact_name base m = clone_artifact_name base n \<Longrightarrow> m = n"
  by (simp add: clone_artifact_name_def decimal_inj)

lemma fire_clones_from:
  "artifacts (fire_clones base k s)
     = artifacts s @ map (clone_artifact_name base) [clones_taken s..<clones_taken s + k]
   \<and> clones_taken (fire_clones base k s) = clones_taken s + k"
proof (induction k arbitrary: s)
  case 0
  then show ?case by simp
next
  case (Suc k)
  have "[clones_taken s..<clones_taken s + Suc k]
          = clones_taken s # [Suc (clones_taken s)..<Suc (clones_taken s) + k]"
    by (simp add: upt_conv_Cons)
  with Suc [of "fire_clone base s"] show ?case by (simp add: fire_clone_def)
qed

text \<open>
  Claim C4. In a session the snapshots of \<open>k\<close> clone firings are named
  \<open><base>.0\<close>, \<open><base>.1\<close>, ... up to \<open>k - 1\<close>, in firing order; the counter of the
  session has then reached \<open>k\<close>, each firing raises it by one, and no name occurs twice.
\<close>

theorem clone_names_count_up:
  "artifacts (fire_clones base k new_session) = map (clone_artifact_name base) [0..<k]
   \<and> clones_taken (fire_clones base k new_session) = k
   \<and> distinct (artifacts (fire_clones base k new_session))
   \<and> clone_artifact_name base 0 = base @ ''.0''
   \<and> clone_artifact_name base 1 = base @ ''.1''
   \<and> clones_taken (fire_clone base s) = Suc (clones_taken s)"
proof -
  have a: "artifacts (fire_clones base k new_session) = map (clone_artifact_name base) [0..<k]"
    and b: "clones_taken (fire_clones base k new_session) = k"
    using fire_clones_from [of base k new_session] by (simp_all add: new_session_def)
  have "inj_on (clone_artifact_name base) (set [0..<k])"
    by (rule inj_onI) (rule clone_artifact_name_inj)
  then have c: "distinct (map (clone_artifact_name base) [0..<k])"
    by (simp add: distinct_map)
  show ?thesis using a b c
    by (simp add: clone_artifact_name_def digit_char_def fire_clone_def)
qed

subsection \<open>The loop over the runs\<close>










end
